theory Spec2Isabelle
  imports Complex_Main
begin

section \<open>The timeline engine (movie.js) and its layers\<close>

text \<open>
  Times and wall-clock readings are JavaScript numbers; they are modelled as rationals, so
  that comparison and addition are exact.  Pixel operations (background fill, the layer's
  own \<open>_render\<close>, \<open>drawImage\<close>, the movie-level effects) do not touch the playback state and
  are left out of the movie model.  \<open>_publish\<close> comes from \<open>util.js\<close>, which is not among the
  sources: a publication is recorded in the log of the object it is published on, and the
  subscribers are taken not to write the fields modelled here.
\<close>

datatype notification =
  Start | Stop | Attach | Seek | AudioDestinationUpdate | Ended | TimeUpdate | LoadedData

text \<open>A layer (\<open>Base\<close> of layer.js): \<open>_startTime\<close>, \<open>_duration\<close>, \<open>_active\<close>; \<open>media\<close> is the
  \<open>readyState\<close> of the layer's media element, if it has one.\<close>

record layer =
  startTime :: rat
  duration :: rat
  active :: bool
  media :: "nat option"
  notified :: "notification list"

text \<open>A canvas element: its identity and its size.  A 2-D context is named by the element
  it was obtained from.\<close>

record canvas =
  element :: nat
  cwidth :: nat
  cheight :: nat

text \<open>The movie.  \<open>renderingFrame\<close> is \<open>undefined\<close> (\<open>None\<close>), \<open>false\<close> or \<open>true\<close>;
  \<open>mediaRecorder\<close> is \<open>null\<close> (\<open>None\<close>) or the recorder with its frame rate.\<close>

record movie =
  layers :: "layer list"
  paused :: bool
  ended :: bool
  rendering :: bool
  renderingFrame :: "bool option"
  currentTime :: rat
  lastPlayed :: rat
  lastPlayedOffset :: rat
  repeat :: bool
  mediaRecorder :: "rat option"
  movie_canvas :: canvas
  cctx :: nat
  published :: "notification list"

datatype movie_error = CannotRecordWhilePlaying

definition truthy :: "bool option \<Rightarrow> bool" where
  "truthy v = (v = Some True)"

text \<open>Modelled from the spec: \<open>_publish\<close> of \<open>PubSub\<close> (\<open>util.js\<close>) is not among the sources.
  It calls the handlers subscribed to the kind of notification, at the point of emission;
  here the notification is appended to the log of the layer, or of the movie.\<close>

definition publish :: "notification \<Rightarrow> layer \<Rightarrow> layer" where
  "publish n l = l\<lparr>notified := notified l @ [n]\<rparr>"

definition publish_movie :: "notification \<Rightarrow> movie \<Rightarrow> movie" where
  "publish_movie n m = m\<lparr>published := published m @ [n]\<rparr>"

definition recording :: "movie \<Rightarrow> bool" where
  "recording m = (mediaRecorder m \<noteq> None)"

text \<open>\<open>get duration\<close>: \<open>layers.reduce((end, layer) => Math.max(layer.startTime + layer.duration, end), 0)\<close>.\<close>

definition movie_duration :: "movie \<Rightarrow> rat" where
  "movie_duration m = fold (\<lambda>l end. max (startTime l + duration l) end) (layers m) 0"

text \<open>The body of the loops in \<open>pause\<close> and in the ended branch of \<open>_render\<close>.\<close>

definition disable :: "layer \<Rightarrow> layer" where
  "disable l = (publish Stop l)\<lparr>active := False\<rparr>"

definition pause :: "movie \<Rightarrow> movie" where
  "pause m = m\<lparr>paused := True, layers := map disable (layers m)\<rparr>"

text \<open>The body of the loop of \<open>_renderLayers\<close> for one layer, at the movie clock \<open>t\<close>; \<open>instant\<close>
  is the truth value of \<open>_renderingFrame\<close>.\<close>

definition renderLayer :: "rat \<Rightarrow> bool \<Rightarrow> layer \<Rightarrow> layer" where
  "renderLayer t instant l =
     (if t < startTime l \<or> t > startTime l + duration l then
        (if active l \<and> \<not> instant then (publish Stop l)\<lparr>active := False\<rparr> else l)
      else
        (if \<not> active l \<and> \<not> instant then (publish Start l)\<lparr>active := True\<rparr> else l))"

text \<open>Whether the layer takes part in \<open>frameFullyLoaded\<close>: only a layer inside its interval
  is asked, and only if it has media.\<close>

definition layerLoaded :: "rat \<Rightarrow> layer \<Rightarrow> bool" where
  "layerLoaded t l =
     (if t < startTime l \<or> t > startTime l + duration l then True
      else (case media l of None \<Rightarrow> True | Some readyState \<Rightarrow> readyState \<ge> 2))"

definition renderLayers :: "movie \<Rightarrow> movie \<times> bool" where
  "renderLayers m =
     (m\<lparr>layers := map (renderLayer (currentTime m) (truthy (renderingFrame m))) (layers m)\<rparr>,
      list_all (layerLoaded (currentTime m)) (layers m))"

definition updateCurrentTime :: "rat \<Rightarrow> movie \<Rightarrow> movie" where
  "updateCurrentTime timestamp m =
     (if \<not> truthy (renderingFrame m) then
        publish_movie TimeUpdate
          (m\<lparr>currentTime := lastPlayedOffset m + (timestamp - lastPlayed m) / 1000\<rparr>)
      else m)"

text \<open>One call of \<open>_render\<close>.  \<open>timestamp\<close> is its argument, \<open>now\<close> the reading of
  \<open>performance.now()\<close> in the ended branch.  The result says whether another frame was
  requested with \<open>requestAnimationFrame\<close>.  The movie's own subscriber to \<open>ended\<close> asks a
  recorder to stop; the recorder's \<open>onstop\<close> handler runs after the call and is not part
  of it.\<close>

definition render :: "rat \<Rightarrow> rat \<Rightarrow> movie \<Rightarrow> movie \<times> bool" where
  "render timestamp now m =
     (if paused m \<and> \<not> truthy (renderingFrame m) then
        (m\<lparr>rendering := False, renderingFrame := None\<rparr>, False)
      else
        let m1 = updateCurrentTime timestamp m in
        if currentTime m1 \<ge> movie_duration m1 then
          let m2 = publish_movie Ended m1;
              m3 = publish_movie TimeUpdate (m2\<lparr>currentTime := 0\<rparr>);
              m4 = m3\<lparr>lastPlayed := now, lastPlayedOffset := 0\<rparr>;
              m5 = (if \<not> repeat m4 \<or> recording m4
                    then m4\<lparr>ended := True, layers := map disable (layers m4)\<rparr> else m4)
          in (m5\<lparr>rendering := False, renderingFrame := None\<rparr>, False)
        else
          let (m2, frameFullyLoaded) = renderLayers m1;
              m3 = (if frameFullyLoaded then publish_movie LoadedData m2 else m2)
          in if \<not> truthy (renderingFrame m3) \<or> (truthy (renderingFrame m3) \<and> \<not> frameFullyLoaded)
             then (m3, True)
             else (m3\<lparr>rendering := False, renderingFrame := None\<rparr>, False))"

text \<open>\<open>play\<close>: \<open>now1\<close> is the reading of \<open>performance.now()\<close> stored in \<open>_lastPlayed\<close>, \<open>now2\<close>
  the default timestamp of the \<open>_render\<close> call, \<open>now3\<close> the reading inside it.\<close>

definition play :: "rat \<Rightarrow> rat \<Rightarrow> rat \<Rightarrow> movie \<Rightarrow> movie \<times> bool" where
  "play now1 now2 now3 m =
     (let m1 = m\<lparr>paused := False, ended := False, lastPlayed := now1,
                 lastPlayedOffset := currentTime m\<rparr>
      in if rendering m1 \<and> truthy (renderingFrame m1) then (m1\<lparr>renderingFrame := Some False\<rparr>, False)
         else if \<not> rendering m1 then render now2 now3 (m1\<lparr>renderingFrame := Some False\<rparr>)
         else (m1, False))"

definition refresh :: "rat \<Rightarrow> rat \<Rightarrow> movie \<Rightarrow> movie \<times> bool" where
  "refresh now2 now3 m = render now2 now3 (m\<lparr>renderingFrame := Some True\<rparr>)"

text \<open>\<open>setCurrentTime(time, refresh = true)\<close>.\<close>

definition setCurrentTime :: "rat \<Rightarrow> rat \<Rightarrow> rat \<Rightarrow> movie \<Rightarrow> movie \<times> bool" where
  "setCurrentTime time now2 now3 m = refresh now2 now3 (publish_movie Seek (m\<lparr>currentTime := time\<rparr>))"

text \<open>\<open>record(framerate)\<close>.  The guard throws before anything is written; otherwise the
  canvas is replaced by a new element \<open>fresh\<close> of the same size, the layers are told of the new
  audio destination, the recorder is attached and \<open>play\<close> is called.  The state is returned
  in both cases, with the error if one was thrown.\<close>

definition record_movie ::
  "rat \<Rightarrow> nat \<Rightarrow> rat \<Rightarrow> rat \<Rightarrow> rat \<Rightarrow> movie \<Rightarrow> movie \<times> movie_error option" where
  "record_movie framerate fresh now1 now2 now3 m =
     (if \<not> paused m then (m, Some CannotRecordWhilePlaying)
      else
        let m1 = m\<lparr>paused := False, ended := False\<rparr>;
            canvasCache = movie_canvas m1;
            m2 = m1\<lparr>movie_canvas := \<lparr>element = fresh, cwidth = cwidth canvasCache,
                                       cheight = cheight canvasCache\<rparr>,
                    cctx := fresh\<rparr>;
            m3 = m2\<lparr>layers := map (publish AudioDestinationUpdate) (layers m2)\<rparr>;
            m4 = m3\<lparr>mediaRecorder := Some framerate\<rparr>
        in (fst (play now1 now2 now3 m4), None))"

text \<open>The movie clock that \<open>_updateCurrentTime\<close> computes from a timestamp while playing.\<close>

definition clock :: "movie \<Rightarrow> rat \<Rightarrow> rat" where
  "clock m timestamp = lastPlayedOffset m + (timestamp - lastPlayed m) / 1000"

text \<open>A run of the render loop: one \<open>_render\<close> call per frame, each with its timestamp and
  its reading of \<open>performance.now()\<close>.\<close>

definition ticks :: "(rat \<times> rat) list \<Rightarrow> movie \<Rightarrow> movie" where
  "ticks tss m = fold (\<lambda>p m'. fst (render (fst p) (snd p) m')) tss m"

text \<open>The interval of a layer as the specification words it, half-open, and the test of
  \<open>_renderLayers\<close> for a clock outside the layer.\<close>

definition in_interval :: "layer \<Rightarrow> rat \<Rightarrow> bool" where
  "in_interval l t = (startTime l \<le> t \<and> t < startTime l + duration l)"

definition outside :: "layer \<Rightarrow> rat \<Rightarrow> bool" where
  "outside l t = (t < startTime l \<or> t > startTime l + duration l)"

section \<open>The affine matrix (Transform.Matrix of effect.js)\<close>

text \<open>
  The matrix is its \<open>data\<close> array of nine numbers.  \<open>cell(x, y)\<close> reads \<open>data[3*y + x]\<close> and
  \<open>cell(x, y, val)\<close> writes it.  The arrays of the claims have nine entries, so every index
  the code computes is in range (a shorter JavaScript array would read \<open>undefined\<close> there).
  \<open>TMP_MATRIX\<close> is a module-level matrix shared by all calls, so \<open>multiply\<close> takes its data
  and returns it with the new data of \<open>this\<close>.
\<close>

definition cell :: "rat list \<Rightarrow> nat \<Rightarrow> nat \<Rightarrow> rat" where
  "cell data x y = data ! (3 * y + x)"

definition cell_set :: "rat list \<Rightarrow> nat \<Rightarrow> nat \<Rightarrow> rat \<Rightarrow> rat list" where
  "cell_set data x y v = data[3 * y + x := v]"

definition IDENTITY :: "rat list" where
  "IDENTITY = [1, 0, 0,
               0, 1, 0,
               0, 0, 1]"

text \<open>The innermost loop: \<open>sum += this.cell(x, i) * other.cell(i, y)\<close> for \<open>i = 0, 1, 2\<close>.\<close>

definition multiply_sum :: "rat list \<Rightarrow> rat list \<Rightarrow> nat \<Rightarrow> nat \<Rightarrow> rat" where
  "multiply_sum this other x y = fold (\<lambda>i sum. sum + cell this x i * cell other i y) [0..<3] 0"

text \<open>The two outer loops, writing \<open>TMP_MATRIX.cell(x, y, sum)\<close>.\<close>

definition multiply_tmp :: "rat list \<Rightarrow> rat list \<Rightarrow> rat list \<Rightarrow> rat list" where
  "multiply_tmp tmp this other =
     fold (\<lambda>x tmp1. fold (\<lambda>y tmp2. cell_set tmp2 x y (multiply_sum this other x y)) [0..<3] tmp1)
       [0..<3] tmp"

text \<open>\<open>multiply(other)\<close>: the loops, then the copy \<open>this.data[i] = TMP_MATRIX.data[i]\<close>.  The
  result is the new data of \<open>this\<close> and of \<open>TMP_MATRIX\<close>.\<close>

definition multiply :: "rat list \<Rightarrow> rat list \<Rightarrow> rat list \<Rightarrow> rat list \<times> rat list" where
  "multiply tmp this other =
     (let tmp' = multiply_tmp tmp this other
      in (fold (\<lambda>i data. data[i := tmp' ! i]) [0..<length tmp'] this, tmp'))"

definition translate :: "rat list \<Rightarrow> rat list \<Rightarrow> rat \<Rightarrow> rat \<Rightarrow> rat list \<times> rat list" where
  "translate tmp this x y = multiply tmp this [1, 0, x,
                                               0, 1, y,
                                               0, 0, 1]"

definition scale :: "rat list \<Rightarrow> rat list \<Rightarrow> rat \<Rightarrow> rat \<Rightarrow> rat list \<times> rat list" where
  "scale tmp this x y = multiply tmp this [x, 0, 0,
                                           0, y, 0,
                                           0, 0, 1]"

text \<open>The matrix product as the specification words it, under the index convention
  \<open>data[3*row + col]\<close>: the entry at row \<open>r\<close>, column \<open>c\<close> is the sum over \<open>i\<close> of
  \<open>A[r][i] * B[i][c]\<close>.\<close>

definition row_major_entry :: "rat list \<Rightarrow> rat list \<Rightarrow> nat \<Rightarrow> nat \<Rightarrow> rat" where
  "row_major_entry A B r c = (\<Sum>i \<leftarrow> [0..<3]. A ! (3 * r + i) * B ! (3 * i + c))"

definition row_major_product :: "rat list \<Rightarrow> rat list \<Rightarrow> rat list" where
  "row_major_product A B = map (\<lambda>k. row_major_entry A B (k div 3) (k mod 3)) [0..<9]"

section \<open>Kernel synthesis (GaussianBlur.genPascalRow, gen1DKernel)\<close>

datatype kernel_error = InvalidIndex int

text \<open>One pass of the outer loop of \<open>genPascalRow\<close>: \<open>nextRow\<close> gets the length of \<open>currRow\<close>
  plus one, its two ends are set to 1 and the cells between them are filled from \<open>currRow\<close>.
  The holes of the new array are written as 0; each of them is assigned before it is read.\<close>

definition nextRow :: "rat list \<Rightarrow> rat list" where
  "nextRow currRow =
     (let n = length currRow + 1;
          row0 = ((replicate n 0)[n - 1 := 1])[0 := 1]
      in fold (\<lambda>j row. row[j := currRow ! (j - 1) + currRow ! j]) [1..<n - 1] row0)"

function genPascalLoop :: "int \<Rightarrow> int \<Rightarrow> rat list \<Rightarrow> rat list" where
  "genPascalLoop i index currRow =
     (if i < index then genPascalLoop (i + 1) index (nextRow currRow) else currRow)"
  by pat_completeness auto
termination
  by (relation "measure (\<lambda>(i, index, currRow). nat (index - i))") auto

declare genPascalLoop.simps [simp del]

definition genPascalRow :: "int \<Rightarrow> kernel_error + rat list" where
  "genPascalRow index =
     (if index < 0 then Inl (InvalidIndex index) else Inr (genPascalLoop 1 index [1]))"


section \<open>Effects (effect.js)\<close>

text \<open>
  An effect's \<open>apply(target, reltime)\<close> works on the target and on whatever else the effect
  keeps (scratch canvases, caches), so it is a transformer of a state \<open>'w\<close> that holds them;
  \<open>'r\<close> names the target in it.  A \<open>throw\<close> ends the call with the state as it is then.
  \<open>Base\<close> and \<open>Stack\<close> are the classes of the source; \<open>Other\<close> stands for any other class,
  given by what its \<open>apply\<close> does.
\<close>

datatype effect_error = NoOverridingMethod | Thrown string

datatype ('r, 'w) effect =
    Base
  | Stack "('r, 'w) effect list"
  | Other "'r \<Rightarrow> rat \<Rightarrow> 'w \<Rightarrow> 'w \<times> effect_error option"

text \<open>\<open>Base.apply\<close> throws; \<open>Stack.apply\<close> runs the loop \<open>apply_loop\<close> over \<open>this.effects\<close>.\<close>

fun apply_effect :: "('r, 'w) effect \<Rightarrow> 'r \<Rightarrow> rat \<Rightarrow> 'w \<Rightarrow> 'w \<times> effect_error option"
  and apply_loop :: "('r, 'w) effect list \<Rightarrow> 'r \<Rightarrow> rat \<Rightarrow> 'w \<Rightarrow> 'w \<times> effect_error option"
where
  "apply_effect Base target reltime w = (w, Some NoOverridingMethod)"
| "apply_effect (Stack effects) target reltime w = apply_loop effects target reltime w"
| "apply_effect (Other f) target reltime w = f target reltime w"
| "apply_loop [] target reltime w = (w, None)"
| "apply_loop (effect # effects) target reltime w =
     (case apply_effect effect target reltime w of
        (w', Some err) \<Rightarrow> (w', Some err)
      | (w', None) \<Rightarrow> apply_loop effects target reltime w')"

text \<open>Applying one effect and then another by hand, as the specification words it.\<close>

definition apply_in_sequence ::
  "('r, 'w) effect \<Rightarrow> ('r, 'w) effect \<Rightarrow> 'r \<Rightarrow> rat \<Rightarrow> 'w \<Rightarrow> 'w \<times> effect_error option" where
  "apply_in_sequence effectA effectB target reltime w =
     (case apply_effect effectA target reltime w of
        (w', Some err) \<Rightarrow> (w', Some err)
      | (w', None) \<Rightarrow> apply_effect effectB target reltime w')"

subsection \<open>The Transform effect\<close>

text \<open>Modelled from the spec: \<open>val\<close> of \<open>util.js\<close> is not among the sources.  A declared
  value is a literal, returned as it is, or a rule, called with the owner and the relative
  time, whose result is resolved in turn.\<close>

datatype ('o, 'a) declared = Literal 'a | Computed "'o \<Rightarrow> rat \<Rightarrow> ('o, 'a) declared"

primrec val :: "('o, 'a) declared \<Rightarrow> 'o \<Rightarrow> rat \<Rightarrow> 'a" where
  "val (Literal v) owner reltime = v"
| "val (Computed rule) owner reltime = val (rule owner reltime) owner reltime"

text \<open>The canvas interface of the browser, as far as \<open>Transform.apply\<close> uses it.  A 2-D
  context has a current transformation matrix, named \<open>a\<close> to \<open>f\<close> as the arguments of
  \<open>setTransform(a, b, c, d, e, f)\<close>.  The pixels of a canvas are recorded as the drawing
  operations that made them, each with the transformation in force.\<close>

record transformation =
  ta :: rat
  tb :: rat
  tc :: rat
  td :: rat
  te :: rat
  tf :: rat

definition identity_transformation :: transformation where
  "identity_transformation = \<lparr>ta = 1, tb = 0, tc = 0, td = 1, te = 0, tf = 0\<rparr>"

datatype pixels =
    Blank
  | Initial nat
  | DrawImage pixels pixels transformation
  | ClearRect pixels transformation nat nat

text \<open>A canvas together with its 2-D context.\<close>

record surface =
  width :: nat
  height :: nat
  bitmap :: pixels
  ctm :: transformation

text \<open>Assigning to \<open>canvas.width\<close> or \<open>canvas.height\<close> clears the bitmap and resets the
  context.\<close>

definition set_width :: "nat \<Rightarrow> surface \<Rightarrow> surface" where
  "set_width w s = s\<lparr>width := w, bitmap := Blank, ctm := identity_transformation\<rparr>"

definition set_height :: "nat \<Rightarrow> surface \<Rightarrow> surface" where
  "set_height h s = s\<lparr>height := h, bitmap := Blank, ctm := identity_transformation\<rparr>"

text \<open>\<open>setTransform\<close> with the list of its arguments: the first six are \<open>a\<close> to \<open>f\<close>, and
  arguments beyond the sixth are dropped.  (Calls with fewer arguments do not occur.)\<close>

definition setTransform :: "rat list \<Rightarrow> surface \<Rightarrow> surface" where
  "setTransform args s =
     (if length args \<ge> 6
      then s\<lparr>ctm := \<lparr>ta = args ! 0, tb = args ! 1, tc = args ! 2,
                      td = args ! 3, te = args ! 4, tf = args ! 5\<rparr>\<rparr>
      else s)"

text \<open>\<open>drawImage(source, 0, 0)\<close> and \<open>clearRect(0, 0, w, h)\<close> on the context of \<open>s\<close>.\<close>

definition drawImage :: "surface \<Rightarrow> surface \<Rightarrow> surface" where
  "drawImage source s = s\<lparr>bitmap := DrawImage (bitmap s) (bitmap source) (ctm s)\<rparr>"

definition clearRect :: "nat \<Rightarrow> nat \<Rightarrow> surface \<Rightarrow> surface" where
  "clearRect w h s = s\<lparr>bitmap := ClearRect (bitmap s) (ctm s) w h\<rparr>"

text \<open>The \<open>Transform\<close> effect: \<open>matrix.data\<close> as declared, the data of \<open>_tmpMatrix\<close>, and
  \<open>_tmpCanvas\<close> with its context \<open>_tmpCtx\<close>.\<close>

record transform_effect =
  matrix_data :: "(surface, rat list) declared"
  tmpMatrix :: "rat list"
  tmpCanvas :: surface

text \<open>\<open>Transform.apply(target, reltime)\<close>.  The getters \<open>a\<close> to \<open>f\<close> of the matrix read
  \<open>data[0]\<close>, \<open>data[3]\<close>, \<open>data[1]\<close>, \<open>data[4]\<close>, \<open>data[2]\<close> and \<open>data[5]\<close>.  The result is
  the effect and the target after the call.\<close>

definition Transform_apply ::
  "transform_effect \<Rightarrow> surface \<Rightarrow> rat \<Rightarrow> transform_effect \<times> surface" where
  "Transform_apply this target reltime =
     (let tmp1 = (if width target \<noteq> width (tmpCanvas this)
                  then set_width (width target) (tmpCanvas this) else tmpCanvas this);
          tmp2 = (if height target \<noteq> height tmp1
                  then set_height (height target) tmp1 else tmp1);
          data = val (matrix_data this) target reltime;
          tmp3 = setTransform [data ! 0, data ! 3, data ! 1, data ! 4, data ! 2, data ! 5] tmp2;
          tmp4 = drawImage target tmp3;
          tmp5 = setTransform [1, 0, 0, 0, 1, 0, 0, 0, 1] tmp4;
          target1 = clearRect (width target) (height target) target;
          target2 = drawImage tmp5 target1
      in (this\<lparr>tmpMatrix := data, tmpCanvas := tmp5\<rparr>, target2))"

section \<open>Examples\<close>

definition example_layers :: "layer list" where
  "example_layers =
     [\<lparr>startTime = 2, duration = 3, active = False, media = None, notified = [Attach]\<rparr>,
      \<lparr>startTime = 0, duration = 10, active = False, media = None, notified = [Attach]\<rparr>]"

text \<open>A paused movie with the two layers, as it is after construction and two \<open>addLayer\<close>
  calls.\<close>

definition example_movie :: movie where
  "example_movie =
     \<lparr>layers = example_layers, paused = True, ended = True, rendering = False,
      renderingFrame = None, currentTime = 0, lastPlayed = 0, lastPlayedOffset = 0,
      repeat = False, mediaRecorder = None,
      movie_canvas = \<lparr>element = 0, cwidth = 16, cheight = 16\<rparr>, cctx = 0, published = []\<rparr>"

text \<open>The movie after \<open>play()\<close>, with every clock reading 0.\<close>

definition playing_movie :: movie where
  "playing_movie = fst (play 0 0 0 example_movie)"

text \<open>Playback that passes over the first layer: frames at the clocks 1, 2, 4.99 and 6.\<close>

definition traversed_movie :: movie where
  "traversed_movie = ticks [(1000, 1000), (2000, 2000), (4990, 4990), (6000, 6000)] playing_movie"

text \<open>The paused movie is sought to 5, the end of the first layer's interval, and played;
  \<open>performance.now()\<close> reads the same in \<open>play\<close> and in its first \<open>_render\<close>.\<close>

definition sought_movie :: movie where
  "sought_movie = fst (play 0 0 0 (fst (setCurrentTime 5 0 0 example_movie)))"

definition negative_layer :: layer where
  "negative_layer = \<lparr>startTime = - 5, duration = 2, active = False, media = None, notified = []\<rparr>"

definition timeline_layers :: "layer list" where
  "timeline_layers =
     [\<lparr>startTime = 0, duration = 5, active = False, media = None, notified = []\<rparr>,
      \<lparr>startTime = 3, duration = 10, active = False, media = None, notified = []\<rparr>]"

text \<open>The matrices of \<open>new Matrix().scale(2, 2)\<close> and \<open>new Matrix().translate(-3, 5)\<close>.\<close>

definition scale_matrix :: "rat list" where
  "scale_matrix = [2, 0, 0,
                   0, 2, 0,
                   0, 0, 1]"

definition translate_matrix :: "rat list" where
  "translate_matrix = [1, 0, - 3,
                       0, 1, 5,
                       0, 0, 1]"

text \<open>A target of 16 by 16 pixels and a new \<open>Transform\<close> effect with the identity matrix.\<close>

definition example_target :: surface where
  "example_target =
     \<lparr>width = 16, height = 16, bitmap = Initial 0, ctm = identity_transformation\<rparr>"

definition example_transform :: transform_effect where
  "example_transform =
     \<lparr>matrix_data = Literal IDENTITY, tmpMatrix = IDENTITY,
      tmpCanvas = \<lparr>width = 300, height = 150, bitmap = Blank, ctm = identity_transformation\<rparr>\<rparr>"

text \<open>Two effects on a state that is one number, and a stack with a \<open>Base\<close> between them.\<close>

definition add_one :: "(unit, int) effect" where
  "add_one = Other (\<lambda>target reltime w. (w + 1, None))"

definition double :: "(unit, int) effect" where
  "double = Other (\<lambda>target reltime w. (2 * w, None))"

section \<open>Properties\<close>

subsection \<open>Facts about the layer loops\<close>

lemma disable_simps:
  "active (disable l) = False" "notified (disable l) = notified l @ [Stop]"
  "startTime (disable l) = startTime l" "duration (disable l) = duration l"
  by (simp_all add: disable_def publish_def)

text \<open>C10: \<open>pause\<close> publishes a stop notification on every layer of the list, whatever its
  active flag was, leaves every layer inactive, and does not change the clock.\<close>

theorem pause_stops_every_layer:
  "length (layers (pause m)) = length (layers m)
   \<and> (\<forall>i < length (layers m).
        notified (layers (pause m) ! i) = notified (layers m ! i) @ [Stop]
        \<and> active (layers (pause m) ! i) = False)
   \<and> currentTime (pause m) = currentTime m
   \<and> paused (pause m)"
  by (simp add: pause_def disable_simps)


theorem pause_stops_every_layer_witness:
  "(0::nat) < length (layers example_movie)
   \<and> active (layers example_movie ! 0) = False
   \<and> notified (layers (pause example_movie) ! 0) = [Attach, Stop]
   \<and> active (layers (pause example_movie) ! 0) = False"
proof -
  have h: "(0::nat) < length (layers example_movie)"
    by (simp add: example_movie_def example_layers_def)
  from pause_stops_every_layer [of example_movie] h
  have "notified (layers (pause example_movie) ! 0) = notified (layers example_movie ! 0) @ [Stop]
        \<and> active (layers (pause example_movie) ! 0) = False"
    by blast
  with h show ?thesis
    by (simp add: example_movie_def example_layers_def)
qed

subsection \<open>The movie clock and the render loop\<close>

lemma renderLayer_times [simp]:
  "startTime (renderLayer t inst l) = startTime l" "duration (renderLayer t inst l) = duration l"
  by (simp_all add: renderLayer_def publish_def)

lemma fold_max_map:
  assumes "\<And>l. startTime (f l) = startTime l" "\<And>l. duration (f l) = duration l"
  shows "fold (\<lambda>l end. max (startTime l + duration l) end) (map f ls) e
       = fold (\<lambda>l end. max (startTime l + duration l) end) ls e"
  by (induction ls arbitrary: e) (simp_all add: assms)

lemma movie_duration_layers:
  "layers m' = map (renderLayer t inst) (layers m) \<Longrightarrow> movie_duration m' = movie_duration m"
  by (simp add: movie_duration_def fold_max_map)

lemma updateCurrentTime_playing:
  assumes "\<not> truthy (renderingFrame m)"
  shows "currentTime (updateCurrentTime ts m) = clock m ts"
    "layers (updateCurrentTime ts m) = layers m"
    "renderingFrame (updateCurrentTime ts m) = renderingFrame m"
    "paused (updateCurrentTime ts m) = paused m"
    "lastPlayed (updateCurrentTime ts m) = lastPlayed m"
    "lastPlayedOffset (updateCurrentTime ts m) = lastPlayedOffset m"
    "repeat (updateCurrentTime ts m) = repeat m"
    "mediaRecorder (updateCurrentTime ts m) = mediaRecorder m"
  using assms by (simp_all add: updateCurrentTime_def publish_movie_def clock_def)

lemma movie_duration_update [simp]: "movie_duration (updateCurrentTime ts m) = movie_duration m"
  by (simp add: movie_duration_def updateCurrentTime_def publish_movie_def)

text \<open>A frame while playing, before the end of the movie: the clock is set from the
  timestamp and \<open>_renderLayers\<close> runs its loop body on every layer.\<close>

lemma render_playing:
  assumes "\<not> paused m" "\<not> truthy (renderingFrame m)" "clock m ts < movie_duration m"
  shows "layers (fst (render ts now m)) = map (renderLayer (clock m ts) False) (layers m)"
    and "paused (fst (render ts now m)) = paused m"
    and "renderingFrame (fst (render ts now m)) = renderingFrame m"
    and "lastPlayed (fst (render ts now m)) = lastPlayed m"
    and "lastPlayedOffset (fst (render ts now m)) = lastPlayedOffset m"
    and "repeat (fst (render ts now m)) = repeat m"
    and "mediaRecorder (fst (render ts now m)) = mediaRecorder m"
    and "currentTime (fst (render ts now m)) = clock m ts"
  using assms
  by (simp_all add: render_def Let_def updateCurrentTime_playing renderLayers_def
      publish_movie_def split_def)

text \<open>The frame on which the clock reaches the movie's duration, without repeat or while
  recording: the loop of the ended branch runs on every layer.\<close>

lemma render_ended:
  assumes "\<not> paused m" "\<not> truthy (renderingFrame m)" "movie_duration m \<le> clock m ts"
    "\<not> repeat m \<or> recording m"
  shows "layers (fst (render ts now m)) = map disable (layers m)"
  using assms
  by (simp add: render_def Let_def updateCurrentTime_playing publish_movie_def recording_def)

lemma clock_cong:
  "lastPlayed m' = lastPlayed m \<Longrightarrow> lastPlayedOffset m' = lastPlayedOffset m \<Longrightarrow> clock m' = clock m"
  by (simp add: clock_def fun_eq_iff)

lemma ticks_playing:
  assumes "\<not> paused m" "\<not> truthy (renderingFrame m)"
    "\<forall>p \<in> set tss. clock m (fst p) < movie_duration m"
  shows "layers (ticks tss m) = map (fold (\<lambda>p. renderLayer (clock m (fst p)) False) tss) (layers m)
    \<and> paused (ticks tss m) = paused m
    \<and> renderingFrame (ticks tss m) = renderingFrame m
    \<and> lastPlayed (ticks tss m) = lastPlayed m
    \<and> lastPlayedOffset (ticks tss m) = lastPlayedOffset m
    \<and> repeat (ticks tss m) = repeat m
    \<and> mediaRecorder (ticks tss m) = mediaRecorder m
    \<and> movie_duration (ticks tss m) = movie_duration m"
  using assms
proof (induction tss arbitrary: m)
  case Nil
  then show ?case by (simp add: ticks_def)
next
  case (Cons p tss)
  let ?m' = "fst (render (fst p) (snd p) m)"
  have run: "clock m (fst p) < movie_duration m"
    using Cons.prems(3) by simp
  note step = render_playing [OF Cons.prems(1) Cons.prems(2) run, of "snd p"]
  have dur: "movie_duration ?m' = movie_duration m"
    using step(1) by (rule movie_duration_layers)
  have clk: "clock ?m' = clock m"
    using step(4) step(5) by (rule clock_cong)
  have "\<forall>q \<in> set tss. clock ?m' (fst q) < movie_duration ?m'"
    using Cons.prems(3) by (simp add: dur clk)
  with Cons.IH [of ?m'] Cons.prems(1) Cons.prems(2) step
  have IH: "layers (ticks tss ?m') = map (fold (\<lambda>p. renderLayer (clock ?m' (fst p)) False) tss) (layers ?m')
    \<and> paused (ticks tss ?m') = paused ?m'
    \<and> renderingFrame (ticks tss ?m') = renderingFrame ?m'
    \<and> lastPlayed (ticks tss ?m') = lastPlayed ?m'
    \<and> lastPlayedOffset (ticks tss ?m') = lastPlayedOffset ?m'
    \<and> repeat (ticks tss ?m') = repeat ?m'
    \<and> mediaRecorder (ticks tss ?m') = mediaRecorder ?m'
    \<and> movie_duration (ticks tss ?m') = movie_duration ?m'"
    by simp
  have unfold: "ticks (p # tss) m = ticks tss ?m'"
    by (simp add: ticks_def)
  show ?case
    unfolding unfold using IH step by (simp add: dur clk)
qed

subsection \<open>One layer under a run of non-instant frames\<close>

lemma stays_inactive:
  assumes "\<not> active l" "\<forall>p \<in> set tss. outside l (c p)"
  shows "fold (\<lambda>p. renderLayer (c p) False) tss l = l"
  using assms by (induction tss) (simp_all add: renderLayer_def outside_def)

lemma stays_active:
  assumes "active l" "\<forall>p \<in> set tss. \<not> outside l (c p)"
  shows "fold (\<lambda>p. renderLayer (c p) False) tss l = l"
  using assms by (induction tss) (simp_all add: renderLayer_def outside_def)

lemma enter_layer:
  assumes "\<not> active l" "tss \<noteq> []" "\<forall>p \<in> set tss. \<not> outside l (c p)"
  shows "fold (\<lambda>p. renderLayer (c p) False) tss l = (publish Start l)\<lparr>active := True\<rparr>"
proof (cases tss)
  case Nil
  with assms show ?thesis by simp
next
  case (Cons p tss')
  let ?l' = "(publish Start l)\<lparr>active := True\<rparr>"
  have first: "renderLayer (c p) False l = ?l'"
    using assms Cons by (simp add: renderLayer_def outside_def)
  have "fold (\<lambda>p. renderLayer (c p) False) tss' ?l' = ?l'"
    using assms(3) Cons by (intro stays_active) (simp_all add: publish_def outside_def)
  with first Cons show ?thesis by simp
qed

lemma leave_layer:
  assumes "active l" "tss \<noteq> []" "\<forall>p \<in> set tss. outside l (c p)"
  shows "fold (\<lambda>p. renderLayer (c p) False) tss l = (publish Stop l)\<lparr>active := False\<rparr>"
proof (cases tss)
  case Nil
  with assms show ?thesis by simp
next
  case (Cons p tss')
  let ?l' = "(publish Stop l)\<lparr>active := False\<rparr>"
  have first: "renderLayer (c p) False l = ?l'"
    using assms Cons by (simp add: renderLayer_def outside_def)
  have "fold (\<lambda>p. renderLayer (c p) False) tss' ?l' = ?l'"
    using assms(3) Cons by (intro stays_inactive) (simp_all add: publish_def outside_def)
  with first Cons show ?thesis by simp
qed

lemma in_interval_not_outside: "in_interval l t \<Longrightarrow> \<not> outside l t"
  by (auto simp add: in_interval_def outside_def)

text \<open>Before, inside and beyond its interval: the layer is started once and stopped once.\<close>

lemma layer_enters:
  assumes "\<not> active l" "\<forall>p \<in> set before. outside l (c p)"
    "inside \<noteq> []" "\<forall>p \<in> set inside. in_interval l (c p)"
  shows "fold (\<lambda>p. renderLayer (c p) False) (before @ inside) l = (publish Start l)\<lparr>active := True\<rparr>"
proof -
  have "fold (\<lambda>p. renderLayer (c p) False) before l = l"
    using assms(1,2) by (rule stays_inactive)
  moreover have "fold (\<lambda>p. renderLayer (c p) False) inside l = (publish Start l)\<lparr>active := True\<rparr>"
    using assms(1,3,4) by (intro enter_layer) (simp_all add: in_interval_not_outside)
  ultimately show ?thesis by simp
qed

lemma layer_traversed:
  assumes "\<not> active l" "\<forall>p \<in> set before. outside l (c p)"
    "inside \<noteq> []" "\<forall>p \<in> set inside. in_interval l (c p)"
    "after \<noteq> []" "\<forall>p \<in> set after. outside l (c p)"
  shows "fold (\<lambda>p. renderLayer (c p) False) (before @ inside @ after) l
         = l\<lparr>notified := notified l @ [Start, Stop]\<rparr>"
proof -
  let ?l1 = "(publish Start l)\<lparr>active := True\<rparr>"
  have one: "fold (\<lambda>p. renderLayer (c p) False) (before @ inside) l = ?l1"
    using assms(1-4) by (rule layer_enters)
  have "fold (\<lambda>p. renderLayer (c p) False) after ?l1 = (publish Stop ?l1)\<lparr>active := False\<rparr>"
    using assms(5,6) by (intro leave_layer) (simp_all add: publish_def outside_def)
  with one have "fold (\<lambda>p. renderLayer (c p) False) (before @ inside @ after) l
      = (publish Stop ?l1)\<lparr>active := False\<rparr>"
    by (simp flip: append_assoc)
  also have "\<dots> = l\<lparr>notified := notified l @ [Start, Stop]\<rparr>"
    using assms(1) by (simp add: publish_def)
  finally show ?thesis .
qed

subsection \<open>Activation at the edges of the interval\<close>

text \<open>After a non-instant pass of the loop body the layer is active exactly when the clock
  is not outside by the test of \<open>_renderLayers\<close>, which is the closed interval.\<close>

lemma renderLayer_active:
  "active (renderLayer t False l) \<longleftrightarrow> startTime l \<le> t \<and> t \<le> startTime l + duration l"
  by (auto simp add: renderLayer_def publish_def)

text \<open>C1, at the end of the interval.  The first layer of the example has \<open>startTime = 2\<close>
  and \<open>duration = 3\<close>.  The movie is sought to 5 and played: its first frame has the clock
  at 5, and it starts the layer, although 5 is not in the half-open interval from 2 to 5.\<close>

theorem layer_started_at_interval_end:
  "startTime (layers sought_movie ! 0) = 2
   \<and> duration (layers sought_movie ! 0) = 3
   \<and> currentTime sought_movie = 5
   \<and> active (layers sought_movie ! 0) = True
   \<and> notified (layers sought_movie ! 0) = [Attach, Start]
   \<and> in_interval (layers sought_movie ! 0) (currentTime sought_movie) = False"
  by code_simp

text \<open>The other clocks of the claim: frames at 1.99, 2.00 and 4.99 leave the layer
  inactive, active and active.\<close>

lemma layer_flag_at_claimed_clocks:
  "active (layers (ticks [(1990, 1990)] playing_movie) ! 0) = False"
  "active (layers (ticks [(2000, 2000)] playing_movie) ! 0) = True"
  "active (layers (ticks [(4990, 4990)] playing_movie) ! 0) = True"
  "active (layers (ticks [(5000, 5000)] playing_movie) ! 0) = True"
  by code_simp+

subsection \<open>Start and stop notifications over a traversal\<close>

lemma renderLayers_notified:
  assumes "j < length (layers m)"
  shows "notified (layers (fst (renderLayers m)) ! j) =
         notified (layers m ! j) @
           (if truthy (renderingFrame m) then []
            else if outside (layers m ! j) (currentTime m)
              then (if active (layers m ! j) then [Stop] else [])
              else (if active (layers m ! j) then [] else [Start]))"
  using assms by (simp add: renderLayers_def renderLayer_def outside_def publish_def)

text \<open>C2, as the code has it.  A movie is playing and one of its layers is inactive.  The
  frames \<open>before\<close> have the clock outside the layer (before \<open>startTime\<close> or after
  \<open>startTime + duration\<close>), the frames \<open>inside\<close> have it in the half-open interval, and
  none of them reaches the movie's duration.  Then the layer has
  been sent one start.  It is sent one stop when the clock leaves the interval on later
  frames, or when \<open>pause\<close> is called, or on the frame that reaches the duration (without
  repeat, or while recording).  A pass of \<open>_renderLayers\<close> sends no start to an active layer
  and no stop to an inactive one.\<close>

theorem traversal_notifications:
  assumes "\<not> paused m" and "\<not> truthy (renderingFrame m)"
    and "i < length (layers m)" and "\<not> active (layers m ! i)"
    and "\<forall>p \<in> set (before @ inside @ after). clock m (fst p) < movie_duration m"
    and "\<forall>p \<in> set before. outside (layers m ! i) (clock m (fst p))"
    and "inside \<noteq> []" and "\<forall>p \<in> set inside. in_interval (layers m ! i) (clock m (fst p))"
    and "after \<noteq> []" and "\<forall>p \<in> set after. outside (layers m ! i) (clock m (fst p))"
  shows "notified (layers (ticks (before @ inside) m) ! i) = notified (layers m ! i) @ [Start]
    \<and> active (layers (ticks (before @ inside) m) ! i)
    \<and> notified (layers (ticks (before @ inside @ after) m) ! i)
        = notified (layers m ! i) @ [Start, Stop]
    \<and> \<not> active (layers (ticks (before @ inside @ after) m) ! i)
    \<and> notified (layers (pause (ticks (before @ inside) m)) ! i)
        = notified (layers m ! i) @ [Start, Stop]
    \<and> (\<forall>ts now. movie_duration m \<le> clock m ts \<and> (\<not> repeat m \<or> recording m) \<longrightarrow>
          notified (layers (fst (render ts now (ticks (before @ inside) m))) ! i)
            = notified (layers m ! i) @ [Start, Stop])
    \<and> (\<forall>m' j. j < length (layers m') \<longrightarrow>
          notified (layers (fst (renderLayers m')) ! j) =
          notified (layers m' ! j) @
            (if truthy (renderingFrame m') then []
             else if outside (layers m' ! j) (currentTime m')
               then (if active (layers m' ! j) then [Stop] else [])
               else (if active (layers m' ! j) then [] else [Start])))"
proof -
  let ?l = "layers m ! i"
  let ?c = "\<lambda>p. clock m (fst p)"
  let ?m1 = "ticks (before @ inside) m"
  let ?l1 = "(publish Start ?l)\<lparr>active := True\<rparr>"
  have run1: "\<forall>p \<in> set (before @ inside). clock m (fst p) < movie_duration m"
    using assms(5) by auto
  note inv1 = ticks_playing [OF assms(1) assms(2) run1]
  note inv2 = ticks_playing [OF assms(1) assms(2) assms(5)]
  have entered: "fold (\<lambda>p. renderLayer (?c p) False) (before @ inside) ?l = ?l1"
    using assms(4,6,7,8) by (rule layer_enters)
  have traversed: "fold (\<lambda>p. renderLayer (?c p) False) (before @ inside @ after) ?l
      = ?l\<lparr>notified := notified ?l @ [Start, Stop]\<rparr>"
    using assms(4,6,7,8,9,10) by (rule layer_traversed)
  have l1: "layers ?m1 ! i = ?l1"
    using inv1 assms(3) entered by simp
  have l2: "layers (ticks (before @ inside @ after) m) ! i = ?l\<lparr>notified := notified ?l @ [Start, Stop]\<rparr>"
    using inv2 assms(3) traversed by simp
  have len1: "i < length (layers ?m1)"
    using inv1 assms(3) by simp
  have a: "notified (layers ?m1 ! i) = notified ?l @ [Start]" "active (layers ?m1 ! i)"
    using l1 by (simp_all add: publish_def)
  have b: "notified (layers (ticks (before @ inside @ after) m) ! i) = notified ?l @ [Start, Stop]"
    "\<not> active (layers (ticks (before @ inside @ after) m) ! i)"
    using l2 assms(4) by simp_all
  have c: "notified (layers (pause ?m1) ! i) = notified ?l @ [Start, Stop]"
    using len1 a(1) by (simp add: pause_def disable_simps)
  have d: "notified (layers (fst (render ts now ?m1)) ! i) = notified ?l @ [Start, Stop]"
    if "movie_duration m \<le> clock m ts" "\<not> repeat m \<or> recording m" for ts now
  proof -
    have clk: "clock ?m1 = clock m"
      using inv1 by (intro clock_cong) simp_all
    have "layers (fst (render ts now ?m1)) = map disable (layers ?m1)"
      using inv1 assms(1,2) that by (intro render_ended) (simp_all add: clk recording_def)
    then show ?thesis
      using len1 a(1) by (simp add: disable_simps)
  qed
  show ?thesis
    using a b c d renderLayers_notified by blast
qed

theorem traversal_notifications_witness:
  "notified (layers (ticks ([(1000, 1000)] @ [(2000, 2000), (4990, 4990)]) playing_movie) ! 0)
     = [Attach, Start]
   \<and> notified (layers traversed_movie ! 0) = [Attach, Start, Stop]
   \<and> active (layers traversed_movie ! 0) = False
   \<and> notified (layers (pause (ticks [(1000, 1000), (2000, 2000), (4990, 4990)] playing_movie)) ! 0)
     = [Attach, Start, Stop]"
proof -
  have m: "\<not> paused playing_movie" "\<not> truthy (renderingFrame playing_movie)"
    "0 < length (layers playing_movie)" "\<not> active (layers playing_movie ! 0)"
    "movie_duration playing_movie = 10"
    "startTime (layers playing_movie ! 0) = 2" "duration (layers playing_movie ! 0) = 3"
    "notified (layers playing_movie ! 0) = [Attach]"
    "lastPlayed playing_movie = 0" "lastPlayedOffset playing_movie = 0"
    by code_simp+
  have h: "\<forall>p \<in> set ([(1000, 1000)] @ [(2000, 2000), (4990, 4990)] @ [(6000, 6000)]).
             clock playing_movie (fst p) < movie_duration playing_movie"
    "\<forall>p \<in> set [(1000, 1000)]. outside (layers playing_movie ! 0) (clock playing_movie (fst p))"
    "[(2000, 2000), (4990, 4990)] \<noteq> ([] :: (rat \<times> rat) list)"
    "\<forall>p \<in> set [(2000, 2000), (4990, 4990)].
        in_interval (layers playing_movie ! 0) (clock playing_movie (fst p))"
    "[(6000, 6000)] \<noteq> ([] :: (rat \<times> rat) list)"
    "\<forall>p \<in> set [(6000, 6000)]. outside (layers playing_movie ! 0) (clock playing_movie (fst p))"
    by (simp_all add: m clock_def outside_def in_interval_def)
  from traversal_notifications [OF m(1) m(2) m(3) m(4) h]
  show ?thesis
    by (simp add: m traversed_movie_def)
qed

text \<open>C2 as it is stated fails on the frame that ends the movie: the first layer has been
  started and stopped and is inactive, and the frame at clock 10 sends it a second stop.\<close>

theorem stop_sent_to_inactive_layer:
  "active (layers traversed_movie ! 0) = False
   \<and> notified (layers traversed_movie ! 0) = [Attach, Start, Stop]
   \<and> notified (layers (fst (render 10000 10000 traversed_movie)) ! 0)
       = [Attach, Start, Stop, Stop]"
  by code_simp

subsection \<open>Recording\<close>

text \<open>C6: \<open>record\<close> on a movie that is not paused throws and leaves the movie as it was:
  the canvas, its context and the recorder are the ones before the call.\<close>

theorem record_rejected_while_playing:
  assumes "\<not> paused m"
  shows "record_movie framerate fresh now1 now2 now3 m = (m, Some CannotRecordWhilePlaying)"
  using assms by (simp add: record_movie_def)

theorem record_rejected_while_playing_witness:
  "paused playing_movie = False
   \<and> record_movie 30 1 0 0 0 playing_movie = (playing_movie, Some CannotRecordWhilePlaying)
   \<and> movie_canvas (fst (record_movie 30 1 0 0 0 playing_movie)) = movie_canvas playing_movie
   \<and> cctx (fst (record_movie 30 1 0 0 0 playing_movie)) = cctx playing_movie
   \<and> mediaRecorder (fst (record_movie 30 1 0 0 0 playing_movie)) = None"
proof -
  have h: "\<not> paused playing_movie" by code_simp
  have r: "mediaRecorder playing_movie = None" by code_simp
  from record_rejected_while_playing [OF h, of 30 1 0 0 0] h r
  show ?thesis by simp
qed

text \<open>On a paused movie the call goes through: the canvas is the new element and the
  recorder is attached.\<close>

lemma record_paused_example:
  "snd (record_movie 30 1 0 0 0 example_movie) = None"
  "element (movie_canvas (fst (record_movie 30 1 0 0 0 example_movie))) = 1"
  "cctx (fst (record_movie 30 1 0 0 0 example_movie)) = 1"
  "mediaRecorder (fst (record_movie 30 1 0 0 0 example_movie)) = Some 30"
  "paused (fst (record_movie 30 1 0 0 0 example_movie)) = False"
  by code_simp+

subsection \<open>The duration of the movie\<close>

lemma Max_insert_max:
  fixes S :: "rat set"
  assumes "finite S"
  shows "Max (insert (max a e) S) = Max (insert e (insert a S))"
proof (cases "S = {}")
  case True
  then show ?thesis by (simp add: max.commute)
next
  case False
  with assms show ?thesis by (simp add: max.assoc max.commute max.left_commute)
qed

lemma fold_max_eq:
  "fold (\<lambda>l end. max (startTime l + duration l) end) ls e
     = Max (insert e ((\<lambda>l. startTime l + duration l) ` set ls))"
proof (induction ls arbitrary: e)
  case Nil
  then show ?case by simp
next
  case (Cons l ls)
  show ?case
    using Cons [of "max (startTime l + duration l) e"]
    by (simp add: Max_insert_max)
qed

text \<open>C7, as the code has it: the duration is read from the layer list of the moment, and
  it is the greatest of 0 and the ends of the layers; it is the greatest end when some
  layer ends at 0 or later.\<close>

theorem duration_recomputed:
  "movie_duration (m\<lparr>layers := ls\<rparr>) = Max (insert 0 ((\<lambda>l. startTime l + duration l) ` set ls))
   \<and> ((\<exists>l \<in> set ls. 0 \<le> startTime l + duration l) \<longrightarrow>
        movie_duration (m\<lparr>layers := ls\<rparr>) = Max ((\<lambda>l. startTime l + duration l) ` set ls))"
proof -
  let ?E = "(\<lambda>l. startTime l + duration l) ` set ls"
  have eq: "movie_duration (m\<lparr>layers := ls\<rparr>) = Max (insert 0 ?E)"
    by (simp add: movie_duration_def fold_max_eq)
  have "Max (insert 0 ?E) = Max ?E" if "\<exists>l \<in> set ls. 0 \<le> startTime l + duration l"
  proof -
    from that obtain l where l: "l \<in> set ls" "0 \<le> startTime l + duration l" by blast
    then have ne: "?E \<noteq> {}" by auto
    have "startTime l + duration l \<le> Max ?E"
      using l(1) by (intro Max_ge) simp_all
    with l(2) have "0 \<le> Max ?E" by linarith
    with ne show ?thesis by (simp add: max_def)
  qed
  with eq show ?thesis by simp
qed

theorem duration_recomputed_witness:
  "movie_duration (example_movie\<lparr>layers := timeline_layers\<rparr>) = 13
   \<and> movie_duration example_movie = 10"
proof -
  have h: "\<exists>l \<in> set timeline_layers. 0 \<le> startTime l + duration l"
    by (simp add: timeline_layers_def)
  have "Max ((\<lambda>l. startTime l + duration l) ` set timeline_layers) = 13"
    by (simp add: timeline_layers_def)
  with duration_recomputed [where m = example_movie and ls = timeline_layers] h
  have "movie_duration (example_movie\<lparr>layers := timeline_layers\<rparr>) = 13" by simp
  moreover have "movie_duration example_movie = 10" by code_simp
  ultimately show ?thesis by simp
qed

text \<open>C7 as it is stated fails for a layer that ends before 0: the only layer ends at -3,
  and the duration read is 0.\<close>

theorem duration_of_negative_layer:
  "startTime negative_layer + duration negative_layer = - 3
   \<and> movie_duration (example_movie\<lparr>layers := [negative_layer]\<rparr>) = 0"
  by code_simp

subsection \<open>The matrix product\<close>

lemma list_of_nine:
  assumes "length (xs :: 'a list) = 9"
  obtains x0 x1 x2 x3 x4 x5 x6 x7 x8 where "xs = [x0, x1, x2, x3, x4, x5, x6, x7, x8]"
proof -
  from assms have "\<exists>x0 x1 x2 x3 x4 x5 x6 x7 x8. xs = [x0, x1, x2, x3, x4, x5, x6, x7, x8]"
    by (simp add: eval_nat_numeral length_Suc_conv) blast
  with that show thesis by blast
qed

lemma upt_three: "[0..<3] = [0, 1, 2]"
  by (simp add: upt_rec)

lemma upt_nine: "[0..<9] = [0, 1, 2, 3, 4, 5, 6, 7, 8]"
  by (simp add: upt_rec)

lemma below_three: "(x :: nat) < 3 \<Longrightarrow> x = 0 \<or> x = 1 \<or> x = 2"
  by arith

text \<open>The three loops, run on arrays of nine entries.\<close>

lemma multiply_tmp_nine:
  "multiply_tmp [t0, t1, t2, t3, t4, t5, t6, t7, t8]
       [a0, a1, a2, a3, a4, a5, a6, a7, a8] [b0, b1, b2, b3, b4, b5, b6, b7, b8]
   = [a0 * b0 + a3 * b1 + a6 * b2, a1 * b0 + a4 * b1 + a7 * b2, a2 * b0 + a5 * b1 + a8 * b2,
      a0 * b3 + a3 * b4 + a6 * b5, a1 * b3 + a4 * b4 + a7 * b5, a2 * b3 + a5 * b4 + a8 * b5,
      a0 * b6 + a3 * b7 + a6 * b8, a1 * b6 + a4 * b7 + a7 * b8, a2 * b6 + a5 * b7 + a8 * b8]"
  by (simp add: multiply_tmp_def multiply_sum_def cell_def cell_set_def upt_three)

lemma multiply_nine:
  "multiply [t0, t1, t2, t3, t4, t5, t6, t7, t8]
       [a0, a1, a2, a3, a4, a5, a6, a7, a8] [b0, b1, b2, b3, b4, b5, b6, b7, b8]
   = ([a0 * b0 + a3 * b1 + a6 * b2, a1 * b0 + a4 * b1 + a7 * b2, a2 * b0 + a5 * b1 + a8 * b2,
       a0 * b3 + a3 * b4 + a6 * b5, a1 * b3 + a4 * b4 + a7 * b5, a2 * b3 + a5 * b4 + a8 * b5,
       a0 * b6 + a3 * b7 + a6 * b8, a1 * b6 + a4 * b7 + a7 * b8, a2 * b6 + a5 * b7 + a8 * b8],
      [a0 * b0 + a3 * b1 + a6 * b2, a1 * b0 + a4 * b1 + a7 * b2, a2 * b0 + a5 * b1 + a8 * b2,
       a0 * b3 + a3 * b4 + a6 * b5, a1 * b3 + a4 * b4 + a7 * b5, a2 * b3 + a5 * b4 + a8 * b5,
       a0 * b6 + a3 * b7 + a6 * b8, a1 * b6 + a4 * b7 + a7 * b8, a2 * b6 + a5 * b7 + a8 * b8])"
  unfolding multiply_def Let_def multiply_tmp_nine
  by (simp add: upt_nine)

lemma row_major_product_nine:
  "row_major_product [b0, b1, b2, b3, b4, b5, b6, b7, b8] [a0, a1, a2, a3, a4, a5, a6, a7, a8]
   = [b0 * a0 + b1 * a3 + b2 * a6, b0 * a1 + b1 * a4 + b2 * a7, b0 * a2 + b1 * a5 + b2 * a8,
      b3 * a0 + b4 * a3 + b5 * a6, b3 * a1 + b4 * a4 + b5 * a7, b3 * a2 + b4 * a5 + b5 * a8,
      b6 * a0 + b7 * a3 + b8 * a6, b6 * a1 + b7 * a4 + b8 * a7, b6 * a2 + b7 * a5 + b8 * a8]"
  by (simp add: row_major_product_def row_major_entry_def upt_three upt_nine)

text \<open>C3, as the code has it.  With \<open>cell(x, y) = data[3*y + x]\<close> the loops compute
  \<open>result.cell(x, y)\<close> as the sum over \<open>i\<close> of \<open>this.cell(x, i) * other.cell(i, y)\<close>.  Read
  under the convention \<open>data[3*row + col]\<close> this is the product with \<open>other\<close> on the left:
  the entry at row \<open>r\<close>, column \<open>c\<close> is the sum over \<open>i\<close> of \<open>other[r][i] * this[i][c]\<close>.
  \<open>TMP_MATRIX\<close> is left with the same data.\<close>

theorem multiply_composes:
  assumes "length this = 9" and "length other = 9" and "length tmp = 9"
  shows "fst (multiply tmp this other) = row_major_product other this
    \<and> (\<forall>r < 3. \<forall>c < 3.
          fst (multiply tmp this other) ! (3 * r + c)
            = (\<Sum>i \<leftarrow> [0..<3]. other ! (3 * r + i) * this ! (3 * i + c)))
    \<and> (\<forall>x < 3. \<forall>y < 3.
          cell (fst (multiply tmp this other)) x y
            = (\<Sum>i \<leftarrow> [0..<3]. cell this x i * cell other i y))
    \<and> snd (multiply tmp this other) = fst (multiply tmp this other)"
proof -
  from assms(1) obtain a0 a1 a2 a3 a4 a5 a6 a7 a8
    where a: "this = [a0, a1, a2, a3, a4, a5, a6, a7, a8]"
    by (rule list_of_nine)
  from assms(2) obtain b0 b1 b2 b3 b4 b5 b6 b7 b8
    where b: "other = [b0, b1, b2, b3, b4, b5, b6, b7, b8]"
    by (rule list_of_nine)
  from assms(3) obtain t0 t1 t2 t3 t4 t5 t6 t7 t8
    where t: "tmp = [t0, t1, t2, t3, t4, t5, t6, t7, t8]"
    by (rule list_of_nine)
  have product: "fst (multiply tmp this other) = row_major_product other this"
    unfolding a b t multiply_nine row_major_product_nine
    by (simp add: mult.commute)
  have entries: "fst (multiply tmp this other) ! (3 * r + c)
            = (\<Sum>i \<leftarrow> [0..<3]. other ! (3 * r + i) * this ! (3 * i + c))"
    if "r < 3" "c < 3" for r c
    using below_three [OF that(1)] below_three [OF that(2)]
    unfolding a b t multiply_nine upt_three
    by (elim disjE) (simp_all add: mult.commute)
  have cells: "cell (fst (multiply tmp this other)) x y
            = (\<Sum>i \<leftarrow> [0..<3]. cell this x i * cell other i y)"
    if "x < 3" "y < 3" for x y
    using below_three [OF that(1)] below_three [OF that(2)]
    unfolding a b t multiply_nine upt_three cell_def
    by (elim disjE) simp_all
  have same: "snd (multiply tmp this other) = fst (multiply tmp this other)"
    unfolding a b t multiply_nine by simp
  from product entries cells same show ?thesis by blast
qed

theorem multiply_composes_witness:
  "fst (multiply IDENTITY scale_matrix translate_matrix)
     = row_major_product translate_matrix scale_matrix
   \<and> fst (multiply IDENTITY scale_matrix translate_matrix) = [2, 0, - 3, 0, 2, 5, 0, 0, 1]
   \<and> fst (scale IDENTITY IDENTITY 2 2) = scale_matrix
   \<and> fst (translate IDENTITY IDENTITY (- 3) 5) = translate_matrix"
proof -
  have h: "length scale_matrix = 9" "length translate_matrix = 9" "length IDENTITY = 9"
    by (simp_all add: scale_matrix_def translate_matrix_def IDENTITY_def)
  have "row_major_product translate_matrix scale_matrix = [2, 0, - 3, 0, 2, 5, 0, 0, 1]"
    unfolding scale_matrix_def translate_matrix_def row_major_product_nine by simp
  moreover have "fst (scale IDENTITY IDENTITY 2 2) = scale_matrix"
    unfolding scale_def IDENTITY_def multiply_nine scale_matrix_def by simp
  moreover have "fst (translate IDENTITY IDENTITY (- 3) 5) = translate_matrix"
    unfolding translate_def IDENTITY_def multiply_nine translate_matrix_def by simp
  ultimately show ?thesis
    using multiply_composes [OF h] by simp
qed

text \<open>C3 as it is stated fails for \<open>scale(2, 2)\<close> multiplied by \<open>translate(-3, 5)\<close>: the
  entry at row 0, column 2 is -3 after the call, and -6 in the product of the claim.\<close>

theorem multiply_not_row_major:
  "fst (multiply IDENTITY scale_matrix translate_matrix) = [2, 0, - 3, 0, 2, 5, 0, 0, 1]
   \<and> row_major_product scale_matrix translate_matrix = [2, 0, - 6, 0, 2, 10, 0, 0, 1]
   \<and> fst (multiply IDENTITY scale_matrix translate_matrix) ! (3 * 0 + 2) = - 3
   \<and> row_major_entry scale_matrix translate_matrix 0 2 = - 6"
  unfolding scale_matrix_def translate_matrix_def IDENTITY_def multiply_nine
    row_major_product_nine row_major_entry_def upt_three
  by simp

subsection \<open>Pascal's triangle\<close>

text \<open>A loop that assigns \<open>row[j] = f j\<close> for \<open>j\<close> from \<open>a\<close> up to \<open>b - 1\<close>.\<close>

lemma fold_assign_length [simp]:
  "length (fold (\<lambda>j row. row[j := f j]) js row) = length row"
  by (induction js arbitrary: row) simp_all

lemma fold_assign_nth:
  assumes "b \<le> length row" "k < length row"
  shows "fold (\<lambda>j row. row[j := f j]) [a..<b] row ! k = (if a \<le> k \<and> k < b then f k else row ! k)"
  using assms
proof (induction b)
  case 0
  then show ?case by simp
next
  case (Suc b)
  show ?case
  proof (cases "a \<le> b")
    case True
    with Suc show ?thesis by (auto simp add: nth_list_update)
  next
    case False
    then show ?thesis by auto
  qed
qed

lemma nextRow_length [simp]: "length (nextRow currRow) = length currRow + 1"
  by (simp add: nextRow_def Let_def del: replicate.simps)

lemma nextRow_first: "nextRow currRow ! 0 = 1"
  by (simp add: nextRow_def Let_def fold_assign_nth del: replicate.simps)

lemma nextRow_last: "nextRow currRow ! length currRow = 1"
  by (simp add: nextRow_def Let_def fold_assign_nth nth_list_update del: replicate.simps)

lemma nextRow_interior:
  assumes "1 \<le> j" "j < length currRow"
  shows "nextRow currRow ! j = currRow ! (j - 1) + currRow ! j"
  using assms by (simp add: nextRow_def Let_def fold_assign_nth del: replicate.simps)

text \<open>The row of binomial coefficients with \<open>n + 1\<close> entries.\<close>

lemma nextRow_binomial:
  "nextRow (map (\<lambda>k. of_nat (n choose k)) [0..<Suc n]) = map (\<lambda>k. of_nat (Suc n choose k)) [0..<Suc (Suc n)]"
  (is "nextRow ?row = ?next")
proof (rule nth_equalityI)
  show "length (nextRow ?row) = length ?next" by simp
next
  fix j assume "j < length (nextRow ?row)"
  then have j: "j < Suc (Suc n)" by simp
  consider "j = 0" | "j = Suc n" | "1 \<le> j" "j < Suc n"
    using j by linarith
  then show "nextRow ?row ! j = ?next ! j"
  proof cases
    case 1
    then show ?thesis
      using nextRow_first [of ?row] by (simp del: upt_Suc)
  next
    case 2
    have "nextRow ?row ! length ?row = 1" by (rule nextRow_last)
    then have "nextRow ?row ! Suc n = 1" by simp
    moreover have "?next ! Suc n = 1"
      using nth_map_upt [of "Suc n" "Suc (Suc n)" 0 "\<lambda>k. (of_nat (Suc n choose k) :: rat)"]
      by simp
    ultimately show ?thesis using 2 by simp
  next
    case 3
    then obtain i where i: "j = Suc i" "i < n"
      by (cases j) simp_all
    have "nextRow ?row ! j = ?row ! (j - 1) + ?row ! j"
      using 3 by (intro nextRow_interior) simp_all
    also have "\<dots> = of_nat (n choose i) + of_nat (n choose Suc i)"
      using i nth_map_upt [of i "Suc n" 0 "\<lambda>k. (of_nat (n choose k) :: rat)"]
        nth_map_upt [of "Suc i" "Suc n" 0 "\<lambda>k. (of_nat (n choose k) :: rat)"]
      by simp
    also have "\<dots> = of_nat (Suc n choose Suc i)"
      by simp
    also have "\<dots> = ?next ! j"
      using i nth_map_upt [of "Suc i" "Suc (Suc n)" 0 "\<lambda>k. (of_nat (Suc n choose k) :: rat)"]
      by simp
    finally show ?thesis .
  qed
qed

text \<open>The outer loop of \<open>genPascalRow\<close> runs \<open>nextRow\<close> once for each \<open>i\<close> from its start
  below \<open>index\<close>.\<close>

lemma genPascalLoop_iterate:
  "genPascalLoop i index currRow = (nextRow ^^ nat (index - i)) currRow"
proof (induction i index currRow rule: genPascalLoop.induct)
  case (1 i index currRow)
  show ?case
  proof (cases "i < index")
    case True
    then have "nat (index - i) = Suc (nat (index - (i + 1)))" by simp
    with True "1" show ?thesis
      by (simp add: genPascalLoop.simps [of i] funpow_swap1)
  next
    case False
    then show ?thesis by (simp add: genPascalLoop.simps [of i])
  qed
qed

lemma iterate_binomial:
  "(nextRow ^^ n) [1] = map (\<lambda>k. of_nat (n choose k)) [0..<Suc n]"
proof (induction n)
  case 0
  show ?case by simp
next
  case (Suc n)
  then show ?case by (simp only: funpow.simps o_apply nextRow_binomial)
qed

lemma genPascalRow_binomial:
  assumes "0 \<le> index"
  shows "genPascalRow index
         = Inr (map (\<lambda>k. of_nat (nat (index - 1) choose k)) [0..<Suc (nat (index - 1))])"
  using assms by (simp add: genPascalRow_def genPascalLoop_iterate iterate_binomial)

lemma genPascalRow_step:
  assumes "2 \<le> index" "genPascalRow (index - 1) = Inr prev"
  shows "genPascalRow index = Inr (nextRow prev)"
proof -
  have "nat (index - 1) = Suc (nat (index - 1 - 1))"
    using assms(1) by simp
  then have "(nextRow ^^ nat (index - 1)) [1] = nextRow ((nextRow ^^ nat (index - 1 - 1)) [1])"
    by simp
  with assms show ?thesis
    by (simp add: genPascalRow_def genPascalLoop_iterate split: if_splits)
qed

text \<open>C5, as the code has it: \<open>genPascalRow\<close> fails exactly on a negative index; for an
  index of at least 1 it returns the row of that length, the binomial coefficients, whose
  two ends are 1 and whose inner entries are the sums of the two entries above them in the
  row before.\<close>

theorem genPascalRow_rows:
  "((\<exists>e. genPascalRow index = Inl e) \<longleftrightarrow> index < 0)
   \<and> (1 \<le> index \<longrightarrow>
        (\<exists>row. genPascalRow index = Inr row
           \<and> length row = nat index
           \<and> row ! 0 = 1 \<and> row ! (nat index - 1) = 1
           \<and> row = map (\<lambda>k. of_nat (nat (index - 1) choose k)) [0..<nat index]
           \<and> (\<forall>prev j. genPascalRow (index - 1) = Inr prev \<and> 1 \<le> j \<and> j < nat index - 1 \<longrightarrow>
                 row ! j = prev ! (j - 1) + prev ! j)))"
proof -
  have fails: "(\<exists>e. genPascalRow index = Inl e) \<longleftrightarrow> index < 0"
    by (simp add: genPascalRow_def)
  have rows: "\<exists>row. genPascalRow index = Inr row
           \<and> length row = nat index
           \<and> row ! 0 = 1 \<and> row ! (nat index - 1) = 1
           \<and> row = map (\<lambda>k. of_nat (nat (index - 1) choose k)) [0..<nat index]
           \<and> (\<forall>prev j. genPascalRow (index - 1) = Inr prev \<and> 1 \<le> j \<and> j < nat index - 1 \<longrightarrow>
                 row ! j = prev ! (j - 1) + prev ! j)" if "1 \<le> index"
  proof -
    let ?n = "nat (index - 1)"
    let ?row = "map (\<lambda>k. (of_nat (?n choose k) :: rat)) [0..<Suc ?n]"
    have idx: "nat index = Suc ?n" using that by simp
    have row: "genPascalRow index = Inr ?row"
      using that by (intro genPascalRow_binomial) simp
    have first: "?row ! 0 = 1"
      using nth_map_upt [of 0 "Suc ?n" 0 "\<lambda>k. (of_nat (?n choose k) :: rat)"] by simp
    have last: "?row ! ?n = 1"
      using nth_map_upt [of ?n "Suc ?n" 0 "\<lambda>k. (of_nat (?n choose k) :: rat)"] by simp
    have inner: "?row ! j = prev ! (j - 1) + prev ! j"
      if prev: "genPascalRow (index - 1) = Inr prev" and j: "1 \<le> j" "j < nat index - 1" for prev j
    proof -
      from j idx have two: "2 \<le> index" by linarith
      from two prev have "genPascalRow index = Inr (nextRow prev)" by (rule genPascalRow_step)
      with row have eq: "?row = nextRow prev" by simp
      then have "length ?row = length (nextRow prev)" by (rule arg_cong)
      then have "length prev = ?n" by simp
      with j idx have "nextRow prev ! j = prev ! (j - 1) + prev ! j"
        by (intro nextRow_interior) simp_all
      with eq show ?thesis by simp
    qed
    show ?thesis
      using row first last inner unfolding idx
      by (intro exI [of _ ?row]) (simp del: upt_Suc)
  qed
  from fails rows show ?thesis by blast
qed

theorem genPascalRow_rows_witness:
  "genPascalRow 5 = Inr [1, 4, 6, 4, 1] \<and> genPascalRow 4 = Inr [1, 3, 3, 1]
   \<and> (\<exists>row. genPascalRow 5 = Inr row \<and> length row = 5 \<and> row ! 0 = 1 \<and> row ! 4 = 1
         \<and> row ! 2 = [1, 3, 3, 1] ! 1 + [1, 3, 3, 1] ! 2)
   \<and> genPascalRow (- 1) = Inl (InvalidIndex (- 1))"
proof -
  have five: "genPascalRow 5 = Inr [1, 4, 6, 4, 1]" and four: "genPascalRow 4 = Inr [1, 3, 3, 1]"
    and neg: "genPascalRow (- 1) = Inl (InvalidIndex (- 1))"
    by code_simp+
  from genPascalRow_rows [of 5] four
  obtain row where "genPascalRow 5 = Inr row" "length row = 5" "row ! 0 = 1" "row ! 4 = 1"
    "row ! 2 = [1, 3, 3, 1] ! 1 + [1, 3, 3, 1] ! 2"
    by force
  with five four neg show ?thesis by simp
qed

text \<open>C5 as it is stated fails at 0: the row returned has one entry, not none.\<close>

theorem genPascalRow_zero:
  "genPascalRow 0 = Inr [1]"
  by code_simp

subsection \<open>The normalised kernel\<close>







subsection \<open>Stacks of effects\<close>

text \<open>C9: a stack of two effects does to the state what applying the first and then the
  second does, a \<open>throw\<close> of the first included; in general the stack applies its effects
  in list order, each to the state the one before left.\<close>

theorem Stack_applies_in_order:
  "apply_effect (Stack [effectA, effectB]) target reltime w
     = apply_in_sequence effectA effectB target reltime w
   \<and> apply_effect (Stack []) target reltime w = (w, None)
   \<and> apply_effect (Stack (effect # effects)) target reltime w
     = apply_in_sequence effect (Stack effects) target reltime w"
  by (simp add: apply_in_sequence_def split: prod.splits option.splits)

theorem Stack_applies_in_order_witness:
  "apply_effect (Stack [add_one, double]) () 0 3 = (8, None)
   \<and> apply_in_sequence add_one double () 0 3 = (8, None)
   \<and> apply_effect (Stack [double, add_one]) () 0 3 = (7, None)
   \<and> apply_effect (Stack [add_one, Base, double]) () 0 3 = (4, Some NoOverridingMethod)"
proof -
  have "apply_in_sequence add_one double () 0 3 = (8, None)"
    by (simp add: apply_in_sequence_def add_one_def double_def)
  moreover have "apply_effect (Stack [double, add_one]) () 0 3 = (7, None)"
    by (simp add: add_one_def double_def)
  moreover have "apply_effect (Stack [add_one, Base, double]) () 0 3 = (4, Some NoOverridingMethod)"
    by (simp add: add_one_def double_def)
  ultimately show ?thesis
    using Stack_applies_in_order [of add_one double "()" 0 3] by simp
qed

subsection \<open>The Transform effect\<close>

text \<open>What the call does to the pixels: the target is drawn onto the scratch canvas under
  the matrix, and the scratch canvas is drawn onto the cleared target.\<close>

lemma Transform_apply_pixels:
  assumes "width (tmpCanvas this) = width target" "height (tmpCanvas this) = height target"
    and "val (matrix_data this) target reltime = data"
  shows "bitmap (tmpCanvas (fst (Transform_apply this target reltime)))
           = DrawImage (bitmap (tmpCanvas this)) (bitmap target)
               \<lparr>ta = data ! 0, tb = data ! 3, tc = data ! 1, td = data ! 4, te = data ! 2, tf = data ! 5\<rparr>"
    and "bitmap (snd (Transform_apply this target reltime))
           = DrawImage (ClearRect (bitmap target) (ctm target) (width target) (height target))
               (bitmap (tmpCanvas (fst (Transform_apply this target reltime)))) (ctm target)"
  using assms
  by (simp_all add: Transform_apply_def Let_def setTransform_def drawImage_def clearRect_def)

text \<open>C8, the reset of the scratch context.  \<open>setTransform\<close> is called with the nine entries
  of the 3 by 3 identity matrix; it takes the first six as \<open>a\<close> to \<open>f\<close>, so the context is
  left with \<open>d = 0\<close> and \<open>e = 1\<close>, which is not the identity transformation.\<close>

theorem Transform_apply_reset:
  "ctm (tmpCanvas (fst (Transform_apply this target reltime)))
     = \<lparr>ta = 1, tb = 0, tc = 0, td = 0, te = 1, tf = 0\<rparr>
   \<and> ctm (tmpCanvas (fst (Transform_apply this target reltime))) \<noteq> identity_transformation"
  by (simp add: Transform_apply_def Let_def setTransform_def drawImage_def
      identity_transformation_def)

lemma Transform_apply_example:
  "ctm (tmpCanvas (fst (Transform_apply example_transform example_target 0)))
     = \<lparr>ta = 1, tb = 0, tc = 0, td = 0, te = 1, tf = 0\<rparr>"
  "bitmap (snd (Transform_apply example_transform example_target 0))
     = DrawImage (ClearRect (Initial 0) identity_transformation 16 16)
         (DrawImage Blank (Initial 0) identity_transformation) identity_transformation"
  by (simp_all add: Transform_apply_def Let_def setTransform_def drawImage_def clearRect_def
      set_width_def set_height_def example_transform_def example_target_def IDENTITY_def
      identity_transformation_def)

end
